theory Spec2Isabelle
  imports Main
begin

section \<open>Data model\<close>

text \<open>
  The news portal is a Django application. The views (news/views.py) and the admin
  actions (news/admin.py) are embedded below. The rows they read and write are declared in
  news/models.py, which is not among the sources; the records here carry the fields that
  views.py and admin.py access, with the meaning section 3 of the specification gives them.

  Primary keys are natural numbers, time stamps are integers (seconds, UTC). The texts of
  user-visible messages are Russian sentences in the source; they are represented by one
  constructor per sentence, carrying the values the source interpolates.
\<close>

datatype post_type = NEWS | ARTICLE

record user =
  user_pk :: nat
  username :: string
  is_active :: bool
  is_staff :: bool

record category =
  category_pk :: nat
  category_name :: string

record subscription =
  subscription_pk :: nat
  subscription_user :: nat
  subscription_category :: nat
  subscribed_at :: int

datatype error = Http404 | MultipleObjectsReturned

datatype level = INFO | SUCCESS | WARNING | ERROR

datatype response = Redirect string "nat list" | RedirectLogin | Render string

section \<open>Subscription management (views.py, lines 59--146)\<close>

datatype subscription_message =
    Subscribed string
  | AlreadySubscribed string
  | Unsubscribed string
  | WasNotSubscribed string

text \<open>
  The table of subscriptions is a list of rows, in insertion order, together with the next
  key of the auto-increment column. A list, not a set: whether two rows of one pair can be
  stored is exactly what the properties of subscribing are about.
\<close>

record subscription_table =
  rows :: "subscription list"
  next_pk :: nat

text \<open>\<open>get_object_or_404(Category, id=category_id)\<close>: the row with that key, or Http404.\<close>

definition get_object_or_404 :: "category list \<Rightarrow> nat \<Rightarrow> error + category" where
  "get_object_or_404 categories category_id =
     (case find (\<lambda>c. category_pk c = category_id) categories of
        None \<Rightarrow> Inl Http404
      | Some c \<Rightarrow> Inr c)"

text \<open>The lookup \<open>Subscription.objects.filter(user=..., category=...)\<close>.\<close>

definition is_pair :: "nat \<Rightarrow> nat \<Rightarrow> subscription \<Rightarrow> bool" where
  "is_pair u c s = (subscription_user s = u \<and> subscription_category s = c)"

definition filter_pair :: "subscription_table \<Rightarrow> nat \<Rightarrow> nat \<Rightarrow> subscription list" where
  "filter_pair t u c = filter (is_pair u c) (rows t)"

text \<open>
  \<open>Subscription.objects.get_or_create(user=..., category=...)\<close>, Django's manager method:
  \<open>get\<close> returns the single matching row, raises MultipleObjectsReturned on more than one,
  and on none the row is created (with the time of creation) and returned with
  \<open>created = True\<close>.
\<close>

definition get_or_create ::
  "subscription_table \<Rightarrow> nat \<Rightarrow> nat \<Rightarrow> int \<Rightarrow> error + (subscription \<times> bool) \<times> subscription_table" where
  "get_or_create t u c now =
     (case filter_pair t u c of
        [] \<Rightarrow>
          (let row = \<lparr>subscription_pk = next_pk t, subscription_user = u,
                      subscription_category = c, subscribed_at = now\<rparr>
           in Inr ((row, True), \<lparr>rows = rows t @ [row], next_pk = Suc (next_pk t)\<rparr>))
      | [row] \<Rightarrow> Inr ((row, False), t)
      | _ \<Rightarrow> Inl MultipleObjectsReturned)"

text \<open>
  The view \<open>subscribe_to_category\<close>. The requester is \<open>None\<close> for an anonymous request,
  which \<open>@login_required\<close> sends to the login page. The result is the response, the
  messages added to the request, and the table. The calls of \<open>logger.info\<close> write to the
  log only and are left out.
\<close>

definition subscribe_to_category ::
  "category list \<Rightarrow> subscription_table \<Rightarrow> user option \<Rightarrow> nat \<Rightarrow> int \<Rightarrow>
     error + response \<times> (level \<times> subscription_message) list \<times> subscription_table" where
  "subscribe_to_category categories t request_user category_id now =
     (case request_user of
        None \<Rightarrow> Inr (RedirectLogin, [], t)
      | Some u \<Rightarrow>
          (case get_object_or_404 categories category_id of
             Inl e \<Rightarrow> Inl e
           | Inr category \<Rightarrow>
               (case get_or_create t (user_pk u) (category_pk category) now of
                  Inl e \<Rightarrow> Inl e
                | Inr ((sub, created), t') \<Rightarrow>
                    if created
                    then Inr (Redirect ''category_posts'' [category_id],
                              [(SUCCESS, Subscribed (category_name category))], t')
                    else Inr (Redirect ''category_posts'' [category_id],
                              [(INFO, AlreadySubscribed (category_name category))], t'))))"

text \<open>
  \<open>Subscription.objects.filter(user=..., category=...).delete()[0]\<close>: every matching row is
  deleted, and the first component of the result is the number of rows deleted.
\<close>

definition filter_delete :: "subscription_table \<Rightarrow> nat \<Rightarrow> nat \<Rightarrow> nat \<times> subscription_table" where
  "filter_delete t u c =
     (length (filter_pair t u c), t\<lparr>rows := filter (\<lambda>s. \<not> is_pair u c s) (rows t)\<rparr>)"

text \<open>
  The view \<open>unsubscribe_from_category\<close>; the deleted count is returned with the response,
  so that what the caller decides from it can be stated.
\<close>

definition unsubscribe_from_category ::
  "category list \<Rightarrow> subscription_table \<Rightarrow> user option \<Rightarrow> nat \<Rightarrow>
     error + response \<times> (level \<times> subscription_message) list \<times> nat \<times> subscription_table" where
  "unsubscribe_from_category categories t request_user category_id =
     (case request_user of
        None \<Rightarrow> Inr (RedirectLogin, [], 0, t)
      | Some u \<Rightarrow>
          (case get_object_or_404 categories category_id of
             Inl e \<Rightarrow> Inl e
           | Inr category \<Rightarrow>
               (let (deleted_count, t') = filter_delete t (user_pk u) (category_pk category)
                in if deleted_count > 0
                   then Inr (Redirect ''category_posts'' [category_id],
                             [(SUCCESS, Unsubscribed (category_name category))], deleted_count, t')
                   else Inr (Redirect ''category_posts'' [category_id],
                             [(WARNING, WasNotSubscribed (category_name category))], deleted_count, t'))))"

section \<open>Subscription management: properties\<close>

lemma get_object_or_404_pk:
  "get_object_or_404 categories category_id = Inr c \<Longrightarrow> category_pk c = category_id"
  unfolding get_object_or_404_def
  by (auto split: option.splits simp: find_Some_iff)

lemma filter_not_pair_id:
  "filter (is_pair u c) xs = [] \<Longrightarrow> filter (\<lambda>s. \<not> is_pair u c s) xs = xs"
  by (induction xs) (auto split: if_splits)

lemma filter_delete_none:
  "filter_pair t u c = [] \<Longrightarrow> filter_delete t u c = (0, t)"
  unfolding filter_delete_def filter_pair_def
  by (simp add: filter_not_pair_id)

lemma filter_delete_rows:
  "filter_pair (snd (filter_delete t u c)) u c = []"
  unfolding filter_delete_def filter_pair_def
  by simp

lemma filter_delete_others:
  "(u', c') \<noteq> (u, c) \<Longrightarrow> filter_pair (snd (filter_delete t u c)) u' c' = filter_pair t u' c'"
  unfolding filter_delete_def filter_pair_def
  by (auto simp: is_pair_def intro: filter_cong)

text \<open>
  C9. Unsubscribing deletes the rows of the pair and returns how many were deleted; when
  the requester has no subscription to the category the count is 0 and the table is
  unchanged; and the message the caller chooses (removed, or was not subscribed) is decided
  by that count alone.
\<close>

theorem unsubscribe_deleted_count:
  assumes "get_object_or_404 categories category_id = Inr category"
  shows "\<exists>msgs n t'.
           unsubscribe_from_category categories t (Some u) category_id
             = Inr (Redirect ''category_posts'' [category_id], msgs, n, t')
         \<and> n = length (filter_pair t (user_pk u) category_id)
         \<and> filter_pair t' (user_pk u) category_id = []
         \<and> rows t' = filter (\<lambda>s. \<not> is_pair (user_pk u) category_id s) (rows t)
         \<and> (filter_pair t (user_pk u) category_id = [] \<longrightarrow> n = 0 \<and> t' = t)
         \<and> msgs = (if n > 0 then [(SUCCESS, Unsubscribed (category_name category))]
                    else [(WARNING, WasNotSubscribed (category_name category))])"
proof -
  have pk: "category_pk category = category_id"
    using assms by (rule get_object_or_404_pk)
  obtain n t' where d: "filter_delete t (user_pk u) category_id = (n, t')"
    by (cases "filter_delete t (user_pk u) category_id")
  have n: "n = length (filter_pair t (user_pk u) category_id)"
    using d unfolding filter_delete_def by simp
  have r: "rows t' = filter (\<lambda>s. \<not> is_pair (user_pk u) category_id s) (rows t)"
    using d unfolding filter_delete_def by auto
  have e: "filter_pair t' (user_pk u) category_id = []"
    using filter_delete_rows [of t "user_pk u" category_id] d by simp
  have z: "filter_pair t (user_pk u) category_id = [] \<longrightarrow> n = 0 \<and> t' = t"
    using filter_delete_none [of t "user_pk u" category_id] d by auto
  show ?thesis
    unfolding unsubscribe_from_category_def
    using assms pk d n r e z by auto
qed

theorem unsubscribe_deleted_count_witness:
  "get_object_or_404 [\<lparr>category_pk = 1, category_name = ''sport''\<rparr>] 1
     = Inr \<lparr>category_pk = 1, category_name = ''sport''\<rparr>
   \<and> unsubscribe_from_category [\<lparr>category_pk = 1, category_name = ''sport''\<rparr>]
        \<lparr>rows = [\<lparr>subscription_pk = 1, subscription_user = 7,
                   subscription_category = 1, subscribed_at = 0\<rparr>], next_pk = 2\<rparr>
        (Some \<lparr>user_pk = 7, username = ''ann'', is_active = True, is_staff = False\<rparr>) 1
     = Inr (Redirect ''category_posts'' [1], [(SUCCESS, Unsubscribed ''sport'')], 1,
            \<lparr>rows = [], next_pk = 2\<rparr>)
   \<and> unsubscribe_from_category [\<lparr>category_pk = 1, category_name = ''sport''\<rparr>]
        \<lparr>rows = [], next_pk = 2\<rparr>
        (Some \<lparr>user_pk = 7, username = ''ann'', is_active = True, is_staff = False\<rparr>) 1
     = Inr (Redirect ''category_posts'' [1], [(WARNING, WasNotSubscribed ''sport'')], 0,
            \<lparr>rows = [], next_pk = 2\<rparr>)"
proof -
  have c: "get_object_or_404 [\<lparr>category_pk = 1, category_name = ''sport''\<rparr>] 1
             = Inr \<lparr>category_pk = 1, category_name = ''sport''\<rparr>"
    by (simp add: get_object_or_404_def)
  show ?thesis
    using c
      unsubscribe_deleted_count [OF c,
        of "\<lparr>rows = [\<lparr>subscription_pk = 1, subscription_user = 7,
                        subscription_category = 1, subscribed_at = 0\<rparr>], next_pk = 2\<rparr>"
           "\<lparr>user_pk = 7, username = ''ann'', is_active = True, is_staff = False\<rparr>"]
      unsubscribe_deleted_count [OF c, of "\<lparr>rows = [], next_pk = 2\<rparr>"
           "\<lparr>user_pk = 7, username = ''ann'', is_active = True, is_staff = False\<rparr>"]
    by (simp (no_asm) add: unsubscribe_from_category_def get_object_or_404_def
          filter_delete_def filter_pair_def is_pair_def)
qed

lemma get_or_create_existing:
  "filter_pair t u c = [row] \<Longrightarrow> get_or_create t u c now = Inr ((row, False), t)"
  unfolding get_or_create_def by simp

lemma get_or_create_new:
  assumes "filter_pair t u c = []"
  shows "get_or_create t u c now =
           Inr ((\<lparr>subscription_pk = next_pk t, subscription_user = u,
                   subscription_category = c, subscribed_at = now\<rparr>, True),
                \<lparr>rows = rows t @ [\<lparr>subscription_pk = next_pk t, subscription_user = u,
                                     subscription_category = c, subscribed_at = now\<rparr>],
                 next_pk = Suc (next_pk t)\<rparr>)"
  using assms unfolding get_or_create_def by (simp add: Let_def)

lemma filter_pair_after_create:
  assumes "filter_pair t u c = []"
  shows "filter_pair \<lparr>rows = rows t @ [\<lparr>subscription_pk = k, subscription_user = u,
                                         subscription_category = c, subscribed_at = now\<rparr>],
                      next_pk = n\<rparr> u c
           = [\<lparr>subscription_pk = k, subscription_user = u,
                subscription_category = c, subscribed_at = now\<rparr>]"
  using assms unfolding filter_pair_def by (simp add: is_pair_def)

text \<open>
  The invariant of the data model, at most one row per (user, category) pair, is kept by
  both operations on the table.
\<close>

definition one_row_per_pair :: "subscription_table \<Rightarrow> bool" where
  "one_row_per_pair t = (\<forall>u c. length (filter_pair t u c) \<le> 1)"

lemma get_or_create_keeps_one_row_per_pair:
  assumes "one_row_per_pair t" and "get_or_create t u c now = Inr (r, t')"
  shows "one_row_per_pair t'"
proof (cases "filter_pair t u c")
  case Nil
  have "length (filter_pair t' u' c') \<le> 1" for u' c'
  proof (cases "(u', c') = (u, c)")
    case True
    then show ?thesis
      using Nil assms(2) get_or_create_new [OF Nil, of now] filter_pair_after_create [OF Nil]
      by auto
  next
    case False
    then have "filter_pair t' u' c' = filter_pair t u' c'"
      using assms(2) get_or_create_new [OF Nil, of now]
      by (auto simp: filter_pair_def is_pair_def)
    then show ?thesis
      using assms(1) by (simp add: one_row_per_pair_def)
  qed
  then show ?thesis by (simp add: one_row_per_pair_def)
next
  case (Cons a list)
  then have "t' = t"
    using assms(2) unfolding get_or_create_def by (auto split: list.splits)
  then show ?thesis using assms(1) by simp
qed

lemma filter_delete_keeps_one_row_per_pair:
  assumes "one_row_per_pair t"
  shows "one_row_per_pair (snd (filter_delete t u c))"
proof -
  have "length (filter_pair (snd (filter_delete t u c)) u' c') \<le> 1" for u' c'
  proof (cases "(u', c') = (u, c)")
    case True
    then show ?thesis using filter_delete_rows [of t u c] by simp
  next
    case False
    then show ?thesis
      using filter_delete_others [OF False, of t] assms by (simp add: one_row_per_pair_def)
  qed
  then show ?thesis by (simp add: one_row_per_pair_def)
qed

text \<open>
  C2. Subscribing is idempotent. When the table holds the row of the pair, the lookup
  returns that row with \<open>created = False\<close>, nothing is raised, the table is unchanged and
  the view reports "already subscribed". When the table holds no row of the pair, the first
  call creates one and reports \<open>created = True\<close>, a second call returns the same row with
  \<open>created = False\<close>, and after both calls the table holds exactly one row of the pair.
\<close>

theorem subscribe_idempotent:
  assumes "get_object_or_404 categories category_id = Inr category"
  shows "(filter_pair t (user_pk u) category_id = [row] \<longrightarrow>
            get_or_create t (user_pk u) category_id now = Inr ((row, False), t)
          \<and> subscribe_to_category categories t (Some u) category_id now
              = Inr (Redirect ''category_posts'' [category_id],
                     [(INFO, AlreadySubscribed (category_name category))], t))
       \<and> (filter_pair t (user_pk u) category_id = [] \<longrightarrow>
            (\<exists>row' t'.
               get_or_create t (user_pk u) category_id now = Inr ((row', True), t')
             \<and> subscribe_to_category categories t (Some u) category_id now
                 = Inr (Redirect ''category_posts'' [category_id],
                        [(SUCCESS, Subscribed (category_name category))], t')
             \<and> get_or_create t' (user_pk u) category_id now' = Inr ((row', False), t')
             \<and> subscribe_to_category categories t' (Some u) category_id now'
                 = Inr (Redirect ''category_posts'' [category_id],
                        [(INFO, AlreadySubscribed (category_name category))], t')
             \<and> filter_pair t' (user_pk u) category_id = [row']
             \<and> length (filter_pair t' (user_pk u) category_id) = 1))"
proof -
  have pk: "category_pk category = category_id"
    using assms by (rule get_object_or_404_pk)
  have view_existing: "subscribe_to_category categories s (Some u) category_id n
      = Inr (Redirect ''category_posts'' [category_id],
             [(INFO, AlreadySubscribed (category_name category))], s)"
    if "filter_pair s (user_pk u) category_id = [r]" for s r n
    unfolding subscribe_to_category_def
    using assms pk get_or_create_existing [OF that] by simp
  have existing: ?thesis if "filter_pair t (user_pk u) category_id = [row]"
    using that get_or_create_existing [OF that] view_existing [OF that] by simp
  have fresh: ?thesis if e: "filter_pair t (user_pk u) category_id = []"
  proof -
    define row' where "row' = \<lparr>subscription_pk = next_pk t, subscription_user = user_pk u,
                               subscription_category = category_id, subscribed_at = now\<rparr>"
    define t' where "t' = \<lparr>rows = rows t @ [row'], next_pk = Suc (next_pk t)\<rparr>"
    have g: "get_or_create t (user_pk u) category_id now = Inr ((row', True), t')"
      using get_or_create_new [OF e] by (simp add: row'_def t'_def)
    have f: "filter_pair t' (user_pk u) category_id = [row']"
      using filter_pair_after_create [OF e] by (simp add: row'_def t'_def)
    have v: "subscribe_to_category categories t (Some u) category_id now
                 = Inr (Redirect ''category_posts'' [category_id],
                        [(SUCCESS, Subscribed (category_name category))], t')"
      unfolding subscribe_to_category_def using assms pk g by simp
    show ?thesis
      using e g f v get_or_create_existing [OF f] view_existing [OF f] by auto
  qed
  show ?thesis
  proof (cases "filter_pair t (user_pk u) category_id")
    case Nil
    then show ?thesis by (rule fresh)
  next
    case (Cons a list)
    show ?thesis
    proof (cases "list = [] \<and> a = row")
      case True
      then show ?thesis using Cons existing by simp
    next
      case False
      then show ?thesis using Cons by auto
    qed
  qed
qed

theorem subscribe_idempotent_witness:
  "get_object_or_404 [\<lparr>category_pk = 1, category_name = ''sport''\<rparr>] 1
     = Inr \<lparr>category_pk = 1, category_name = ''sport''\<rparr>
   \<and> subscribe_to_category [\<lparr>category_pk = 1, category_name = ''sport''\<rparr>]
        \<lparr>rows = [], next_pk = 1\<rparr>
        (Some \<lparr>user_pk = 7, username = ''ann'', is_active = True, is_staff = False\<rparr>) 1 100
     = Inr (Redirect ''category_posts'' [1], [(SUCCESS, Subscribed ''sport'')],
            \<lparr>rows = [\<lparr>subscription_pk = 1, subscription_user = 7,
                       subscription_category = 1, subscribed_at = 100\<rparr>], next_pk = 2\<rparr>)
   \<and> subscribe_to_category [\<lparr>category_pk = 1, category_name = ''sport''\<rparr>]
        \<lparr>rows = [\<lparr>subscription_pk = 1, subscription_user = 7,
                   subscription_category = 1, subscribed_at = 100\<rparr>], next_pk = 2\<rparr>
        (Some \<lparr>user_pk = 7, username = ''ann'', is_active = True, is_staff = False\<rparr>) 1 200
     = Inr (Redirect ''category_posts'' [1], [(INFO, AlreadySubscribed ''sport'')],
            \<lparr>rows = [\<lparr>subscription_pk = 1, subscription_user = 7,
                       subscription_category = 1, subscribed_at = 100\<rparr>], next_pk = 2\<rparr>)"
proof -
  have c: "get_object_or_404 [\<lparr>category_pk = 1, category_name = ''sport''\<rparr>] 1
             = Inr \<lparr>category_pk = 1, category_name = ''sport''\<rparr>"
    by (simp add: get_object_or_404_def)
  show ?thesis
    using c
      subscribe_idempotent [OF c, of "\<lparr>rows = [], next_pk = 1\<rparr>"
        "\<lparr>user_pk = 7, username = ''ann'', is_active = True, is_staff = False\<rparr>" _ 100 200]
      subscribe_idempotent [OF c,
        of "\<lparr>rows = [\<lparr>subscription_pk = 1, subscription_user = 7,
                        subscription_category = 1, subscribed_at = 100\<rparr>], next_pk = 2\<rparr>"
           "\<lparr>user_pk = 7, username = ''ann'', is_active = True, is_staff = False\<rparr>"
           "\<lparr>subscription_pk = 1, subscription_user = 7,
                        subscription_category = 1, subscribed_at = 100\<rparr>" 200]
    by (simp (no_asm) add: subscribe_to_category_def get_object_or_404_def get_or_create_def
          filter_pair_def is_pair_def Let_def)
qed

section \<open>Account activation (views.py, lines 512--548)\<close>

record activation_token =
  token_pk :: nat
  token_user :: nat
  token_string :: string
  token_created_at :: int
  activated :: bool

record accounts =
  users :: "user list"
  tokens :: "activation_token list"

text \<open>
  Modelled from the spec: \<open>ActivationToken.is_expired\<close> is declared in news/models.py, which
  is not among the sources. Section 4.5 of the specification: the token is valid for one
  day from its creation, \<open>is_expired()\<close> is a pure function of
  \<open>now - created_at > 1 day\<close>.
\<close>

definition is_expired :: "int \<Rightarrow> activation_token \<Rightarrow> bool" where
  "is_expired now t = (now - token_created_at t > 86400)"

text \<open>
  The rows of \<open>ActivationToken.objects.select_related('user')\<close> restricted to
  \<open>token=token\<close>: each matching token joined with its user.
\<close>

definition select_token :: "accounts \<Rightarrow> string \<Rightarrow> (activation_token \<times> user) list" where
  "select_token a tok =
     concat (map (\<lambda>t. map (Pair t) (filter (\<lambda>u. user_pk u = token_user t) (users a)))
                 (filter (\<lambda>t. token_string t = tok) (tokens a)))"

text \<open>\<open>save()\<close> writes the object over the row of its key.\<close>

definition save_token :: "accounts \<Rightarrow> activation_token \<Rightarrow> accounts" where
  "save_token a t = a\<lparr>tokens := map (\<lambda>x. if token_pk x = token_pk t then t else x) (tokens a)\<rparr>"

definition save_user :: "accounts \<Rightarrow> user \<Rightarrow> accounts" where
  "save_user a u = a\<lparr>users := map (\<lambda>x. if user_pk x = user_pk u then u else x) (users a)\<rparr>"

datatype activation_status = Success string | AlreadyActivated | Expired | Invalid

text \<open>
  \<open>ActivationView.get\<close>. \<open>get(token=token)\<close> raises DoesNotExist on no row, which the view
  catches (status 'invalid'), and MultipleObjectsReturned on several, which it does not.
  The result is \<open>context['status']\<close> (with \<open>context['username']\<close> on success) and the
  accounts after the request.
\<close>

definition ActivationView_get ::
  "accounts \<Rightarrow> string \<Rightarrow> int \<Rightarrow> error + activation_status \<times> accounts" where
  "ActivationView_get a tok now =
     (case select_token a tok of
        [] \<Rightarrow> Inr (Invalid, a)
      | [(activation_token, user)] \<Rightarrow>
          if is_expired now activation_token then Inr (Expired, a)
          else if activated activation_token then Inr (AlreadyActivated, a)
          else
            (let a1 = save_token a (activation_token\<lparr>activated := True\<rparr>);
                 a2 = save_user a1 (user\<lparr>is_active := True\<rparr>)
             in Inr (Success (username user), a2))
      | _ \<Rightarrow> Inl MultipleObjectsReturned)"

text \<open>
  The view runs outside any transaction (settings.py sets no ATOMIC_REQUESTS and views.py
  opens none), so each \<open>save()\<close> is committed when it returns. \<open>activation_writes\<close> lists the
  states of the accounts as the request commits them, in order: none unless the token is
  pending and valid, and then the state after \<open>activation_token.save()\<close> followed by the
  state after \<open>user.save()\<close>.
\<close>

definition activation_writes :: "accounts \<Rightarrow> string \<Rightarrow> int \<Rightarrow> accounts list" where
  "activation_writes a tok now =
     (case select_token a tok of
        [(activation_token, user)] \<Rightarrow>
          if is_expired now activation_token then []
          else if activated activation_token then []
          else
            (let a1 = save_token a (activation_token\<lparr>activated := True\<rparr>);
                 a2 = save_user a1 (user\<lparr>is_active := True\<rparr>)
             in [a1, a2])
      | _ \<Rightarrow> [])"

fun is_success :: "activation_status \<Rightarrow> bool" where
  "is_success (Success n) = True"
| "is_success s = False"

section \<open>Account activation: properties\<close>

lemma select_token_mem:
  assumes "select_token a tok = [(t, u)]"
  shows "t \<in> set (tokens a)" and "u \<in> set (users a)"
proof -
  have "(t, u) \<in> set (select_token a tok)"
    using assms by simp
  then show "t \<in> set (tokens a)" and "u \<in> set (users a)"
    unfolding select_token_def by auto
qed

lemma find_after_save:
  assumes "x \<in> set xs" and "key x = key y"
  shows "find (\<lambda>z. key z = key y) (map (\<lambda>z. if key z = key y then y else z) xs) = Some y"
  using assms by (induction xs) auto

lemma activation_invalid:
  "select_token a tok = [] \<Longrightarrow> ActivationView_get a tok now = Inr (Invalid, a)"
  unfolding ActivationView_get_def by simp

lemma activation_no_success_no_change:
  assumes "ActivationView_get a tok now = Inr (s, a')" and "\<not> is_success s"
  shows "a' = a \<and> activation_writes a tok now = []"
  using assms unfolding ActivationView_get_def activation_writes_def
  by (auto split: list.splits if_splits simp: Let_def)

text \<open>
  C5. The view answers with one of four statuses, 'invalid' when no token matches. It asks
  \<open>is_expired()\<close> before it reads the \<open>activated\<close> flag: a token whose flag is set and whose
  day has passed is answered 'expired', not 'already_activated', while
  \<open>resend_activation_email\<close> and the admin's \<open>status\<close> column read the flag first. The
  accounts are unchanged.
\<close>

theorem activation_of_old_activated_token:
  "ActivationView_get
     \<lparr>users = [\<lparr>user_pk = 7, username = ''ann'', is_active = True, is_staff = False\<rparr>],
      tokens = [\<lparr>token_pk = 1, token_user = 7, token_string = ''abc'',
                 token_created_at = 0, activated = True\<rparr>]\<rparr>
     ''abc'' 90000
   = Inr (Expired,
     \<lparr>users = [\<lparr>user_pk = 7, username = ''ann'', is_active = True, is_staff = False\<rparr>],
      tokens = [\<lparr>token_pk = 1, token_user = 7, token_string = ''abc'',
                 token_created_at = 0, activated = True\<rparr>]\<rparr>)"
  by (simp add: ActivationView_get_def select_token_def is_expired_def)

text \<open>
  C6, as the code has it. For a pending token that has not expired the view answers
  'success' and, when the request completes, the token's \<open>activated\<close> flag and the user's
  active flag are both set; the two flags are written by two separate commits, the token's
  first. Every other answer writes nothing and leaves the accounts as they were.
\<close>

theorem activation_sets_both_flags:
  "(select_token a tok = [(t, u)] \<and> \<not> is_expired now t \<and> \<not> activated t \<longrightarrow>
      ActivationView_get a tok now
        = Inr (Success (username u),
               save_user (save_token a (t\<lparr>activated := True\<rparr>)) (u\<lparr>is_active := True\<rparr>))
    \<and> activation_writes a tok now
        = [save_token a (t\<lparr>activated := True\<rparr>),
           save_user (save_token a (t\<lparr>activated := True\<rparr>)) (u\<lparr>is_active := True\<rparr>)]
    \<and> find (\<lambda>x. token_pk x = token_pk t)
         (tokens (save_user (save_token a (t\<lparr>activated := True\<rparr>)) (u\<lparr>is_active := True\<rparr>)))
        = Some (t\<lparr>activated := True\<rparr>)
    \<and> find (\<lambda>x. user_pk x = user_pk u)
         (users (save_user (save_token a (t\<lparr>activated := True\<rparr>)) (u\<lparr>is_active := True\<rparr>)))
        = Some (u\<lparr>is_active := True\<rparr>))
   \<and> (ActivationView_get a tok now = Inr (s, a') \<and> \<not> is_success s \<longrightarrow>
        a' = a \<and> activation_writes a tok now = [])"
proof -
  have part1: "ActivationView_get a tok now
        = Inr (Success (username u),
               save_user (save_token a (t\<lparr>activated := True\<rparr>)) (u\<lparr>is_active := True\<rparr>))
    \<and> activation_writes a tok now
        = [save_token a (t\<lparr>activated := True\<rparr>),
           save_user (save_token a (t\<lparr>activated := True\<rparr>)) (u\<lparr>is_active := True\<rparr>)]
    \<and> find (\<lambda>x. token_pk x = token_pk t)
         (tokens (save_user (save_token a (t\<lparr>activated := True\<rparr>)) (u\<lparr>is_active := True\<rparr>)))
        = Some (t\<lparr>activated := True\<rparr>)
    \<and> find (\<lambda>x. user_pk x = user_pk u)
         (users (save_user (save_token a (t\<lparr>activated := True\<rparr>)) (u\<lparr>is_active := True\<rparr>)))
        = Some (u\<lparr>is_active := True\<rparr>)"
    if sel: "select_token a tok = [(t, u)]" and ne: "\<not> is_expired now t" and na: "\<not> activated t"
  proof -
    have v: "ActivationView_get a tok now
        = Inr (Success (username u),
               save_user (save_token a (t\<lparr>activated := True\<rparr>)) (u\<lparr>is_active := True\<rparr>))"
      unfolding ActivationView_get_def using sel ne na by (simp add: Let_def)
    have w: "activation_writes a tok now
        = [save_token a (t\<lparr>activated := True\<rparr>),
           save_user (save_token a (t\<lparr>activated := True\<rparr>)) (u\<lparr>is_active := True\<rparr>)]"
      unfolding activation_writes_def using sel ne na by (simp add: Let_def)
    have ft: "find (\<lambda>x. token_pk x = token_pk (t\<lparr>activated := True\<rparr>))
                (map (\<lambda>x. if token_pk x = token_pk (t\<lparr>activated := True\<rparr>)
                          then t\<lparr>activated := True\<rparr> else x) (tokens a))
              = Some (t\<lparr>activated := True\<rparr>)"
      by (rule find_after_save [OF select_token_mem(1) [OF sel]]) simp
    have fu: "find (\<lambda>x. user_pk x = user_pk (u\<lparr>is_active := True\<rparr>))
                (map (\<lambda>x. if user_pk x = user_pk (u\<lparr>is_active := True\<rparr>)
                          then u\<lparr>is_active := True\<rparr> else x) (users a))
              = Some (u\<lparr>is_active := True\<rparr>)"
      by (rule find_after_save [OF select_token_mem(2) [OF sel]]) simp
    show ?thesis
      using v w ft fu by (simp add: save_user_def save_token_def)
  qed
  show ?thesis
    using part1 activation_no_success_no_change [of a tok now s a'] by blast
qed

theorem activation_sets_both_flags_witness:
  "ActivationView_get
     \<lparr>users = [\<lparr>user_pk = 7, username = ''ann'', is_active = False, is_staff = False\<rparr>],
      tokens = [\<lparr>token_pk = 1, token_user = 7, token_string = ''abc'',
                 token_created_at = 0, activated = False\<rparr>]\<rparr>
     ''abc'' 100
   = Inr (Success ''ann'',
     \<lparr>users = [\<lparr>user_pk = 7, username = ''ann'', is_active = True, is_staff = False\<rparr>],
      tokens = [\<lparr>token_pk = 1, token_user = 7, token_string = ''abc'',
                 token_created_at = 0, activated = True\<rparr>]\<rparr>)
   \<and> ActivationView_get
     \<lparr>users = [\<lparr>user_pk = 7, username = ''ann'', is_active = False, is_staff = False\<rparr>],
      tokens = [\<lparr>token_pk = 1, token_user = 7, token_string = ''abc'',
                 token_created_at = 0, activated = False\<rparr>]\<rparr>
     ''xyz'' 100
   = Inr (Invalid,
     \<lparr>users = [\<lparr>user_pk = 7, username = ''ann'', is_active = False, is_staff = False\<rparr>],
      tokens = [\<lparr>token_pk = 1, token_user = 7, token_string = ''abc'',
                 token_created_at = 0, activated = False\<rparr>]\<rparr>)
   \<and> \<not> is_success Invalid"
  using activation_sets_both_flags
    [of "\<lparr>users = [\<lparr>user_pk = 7, username = ''ann'', is_active = False, is_staff = False\<rparr>],
          tokens = [\<lparr>token_pk = 1, token_user = 7, token_string = ''abc'',
                     token_created_at = 0, activated = False\<rparr>]\<rparr>"
        "''abc''"
        "\<lparr>token_pk = 1, token_user = 7, token_string = ''abc'',
                     token_created_at = 0, activated = False\<rparr>"
        "\<lparr>user_pk = 7, username = ''ann'', is_active = False, is_staff = False\<rparr>"
        100 Invalid
        "\<lparr>users = [\<lparr>user_pk = 7, username = ''ann'', is_active = False, is_staff = False\<rparr>],
          tokens = [\<lparr>token_pk = 1, token_user = 7, token_string = ''abc'',
                     token_created_at = 0, activated = False\<rparr>]\<rparr>"]
  by (simp (no_asm) add: ActivationView_get_def select_token_def is_expired_def
        save_token_def save_user_def Let_def)

text \<open>
  Both-or-neither fails between the two commits: once \<open>activation_token.save()\<close> has
  returned, the stored token is activated while the stored user is not yet active.
\<close>

theorem activation_flags_not_atomic:
  "activation_writes
     \<lparr>users = [\<lparr>user_pk = 7, username = ''ann'', is_active = False, is_staff = False\<rparr>],
      tokens = [\<lparr>token_pk = 1, token_user = 7, token_string = ''abc'',
                 token_created_at = 0, activated = False\<rparr>]\<rparr>
     ''abc'' 100
   = [\<lparr>users = [\<lparr>user_pk = 7, username = ''ann'', is_active = False, is_staff = False\<rparr>],
       tokens = [\<lparr>token_pk = 1, token_user = 7, token_string = ''abc'',
                  token_created_at = 0, activated = True\<rparr>]\<rparr>,
      \<lparr>users = [\<lparr>user_pk = 7, username = ''ann'', is_active = True, is_staff = False\<rparr>],
       tokens = [\<lparr>token_pk = 1, token_user = 7, token_string = ''abc'',
                  token_created_at = 0, activated = True\<rparr>]\<rparr>]"
  by (simp add: activation_writes_def select_token_def is_expired_def
        save_token_def save_user_def Let_def)

section \<open>Posts and the admin action (admin.py, lines 218--257)\<close>

record author =
  author_pk :: nat
  author_user :: nat

record post =
  post_pk :: nat
  title :: string
  post_type :: post_type
  post_author :: author
  post_created_at :: int
  post_categories :: "nat list"

record email =
  email_to :: nat
  email_post :: nat
  email_subject :: string

datatype admin_message =
    NotNews string
  | NoCategories string
  | DispatchError string string
  | NotificationsSent nat

datatype log_entry = NotificationsSentFor string | NotificationsFailedFor string string

text \<open>
  The state of \<open>send_notifications_action\<close>: its two counters, the messages shown to the
  staff member (\<open>self.message_user\<close>), the log, and the emails handed to the transport.
\<close>

record action_state =
  success_count :: nat
  error_count :: nat
  user_messages :: "(level \<times> admin_message) list"
  log :: "(level \<times> log_entry) list"
  outbox :: "email list"

text \<open>
  One turn of the loop \<open>for post in queryset\<close>. The method
  \<open>post.send_notifications_to_subscribers()\<close> is declared in news/models.py; the action
  takes it as the parameter \<open>send\<close>, which gives the emails the call handed to the
  transport and the exception it raised, if any.
\<close>

definition notify_post ::
  "(post \<Rightarrow> email list \<times> string option) \<Rightarrow> action_state \<Rightarrow> post \<Rightarrow> action_state" where
  "notify_post send st p =
     (if post_type p \<noteq> NEWS
      then st\<lparr>user_messages := user_messages st @ [(WARNING, NotNews (title p))]\<rparr>
      else if post_categories p = []
      then st\<lparr>user_messages := user_messages st @ [(WARNING, NoCategories (title p))]\<rparr>
      else
        (case send p of
           (sent, None) \<Rightarrow>
             st\<lparr>success_count := success_count st + 1,
                log := log st @ [(INFO, NotificationsSentFor (title p))],
                outbox := outbox st @ sent\<rparr>
         | (sent, Some e) \<Rightarrow>
             st\<lparr>error_count := error_count st + 1,
                log := log st @ [(ERROR, NotificationsFailedFor (title p) e)],
                user_messages := user_messages st @ [(ERROR, DispatchError (title p) e)],
                outbox := outbox st @ sent\<rparr>))"

fun notify_posts ::
  "(post \<Rightarrow> email list \<times> string option) \<Rightarrow> action_state \<Rightarrow> post list \<Rightarrow> action_state" where
  "notify_posts send st [] = st"
| "notify_posts send st (p # queryset) = notify_posts send (notify_post send st p) queryset"

definition send_notifications_action ::
  "(post \<Rightarrow> email list \<times> string option) \<Rightarrow> post list \<Rightarrow> action_state" where
  "send_notifications_action send queryset =
     (let st = notify_posts send
                 \<lparr>success_count = 0, error_count = 0, user_messages = [], log = [], outbox = []\<rparr>
                 queryset
      in if success_count st > 0
         then st\<lparr>user_messages :=
                   user_messages st @ [(INFO, NotificationsSent (success_count st))]\<rparr>
         else st)"

section \<open>The admin action: properties\<close>

text \<open>What one post contributes, for the statements below.\<close>

definition eligible :: "post \<Rightarrow> bool" where
  "eligible p = (post_type p = NEWS \<and> post_categories p \<noteq> [])"

definition post_messages ::
  "(post \<Rightarrow> email list \<times> string option) \<Rightarrow> post \<Rightarrow> (level \<times> admin_message) list" where
  "post_messages send p =
     (if post_type p \<noteq> NEWS then [(WARNING, NotNews (title p))]
      else if post_categories p = [] then [(WARNING, NoCategories (title p))]
      else (case snd (send p) of
              None \<Rightarrow> []
            | Some e \<Rightarrow> [(ERROR, DispatchError (title p) e)]))"

definition post_log ::
  "(post \<Rightarrow> email list \<times> string option) \<Rightarrow> post \<Rightarrow> (level \<times> log_entry) list" where
  "post_log send p =
     (if eligible p
      then (case snd (send p) of
              None \<Rightarrow> [(INFO, NotificationsSentFor (title p))]
            | Some e \<Rightarrow> [(ERROR, NotificationsFailedFor (title p) e)])
      else [])"

definition post_emails :: "(post \<Rightarrow> email list \<times> string option) \<Rightarrow> post \<Rightarrow> email list" where
  "post_emails send p = (if eligible p then fst (send p) else [])"

definition succeeded :: "(post \<Rightarrow> email list \<times> string option) \<Rightarrow> post \<Rightarrow> bool" where
  "succeeded send p = (eligible p \<and> snd (send p) = None)"

definition failed :: "(post \<Rightarrow> email list \<times> string option) \<Rightarrow> post \<Rightarrow> bool" where
  "failed send p = (eligible p \<and> snd (send p) \<noteq> None)"

lemma notify_post_outbox:
  "outbox (notify_post send st p) = outbox st @ post_emails send p"
  unfolding notify_post_def post_emails_def eligible_def
  by (cases "send p"; cases "snd (send p)") auto

lemma notify_post_success_count:
  "success_count (notify_post send st p)
     = success_count st + (if succeeded send p then 1 else 0)"
  unfolding notify_post_def succeeded_def eligible_def
  by (cases "send p"; cases "snd (send p)") auto

lemma notify_post_error_count:
  "error_count (notify_post send st p) = error_count st + (if failed send p then 1 else 0)"
  unfolding notify_post_def failed_def eligible_def
  by (cases "send p"; cases "snd (send p)") auto

lemma notify_post_user_messages:
  "user_messages (notify_post send st p) = user_messages st @ post_messages send p"
  unfolding notify_post_def post_messages_def
  by (cases "send p"; cases "snd (send p)") auto

lemma notify_post_log:
  "log (notify_post send st p) = log st @ post_log send p"
  unfolding notify_post_def post_log_def eligible_def
  by (cases "send p"; cases "snd (send p)") auto

lemma notify_posts_outbox:
  "outbox (notify_posts send st queryset)
     = outbox st @ concat (map (post_emails send) queryset)"
  by (induction queryset arbitrary: st) (simp_all add: notify_post_outbox)

lemma notify_posts_success_count:
  "success_count (notify_posts send st queryset)
     = success_count st + length (filter (succeeded send) queryset)"
  by (induction queryset arbitrary: st) (simp_all add: notify_post_success_count)

lemma notify_posts_error_count:
  "error_count (notify_posts send st queryset)
     = error_count st + length (filter (failed send) queryset)"
  by (induction queryset arbitrary: st) (simp_all add: notify_post_error_count)

lemma notify_posts_user_messages:
  "user_messages (notify_posts send st queryset)
     = user_messages st @ concat (map (post_messages send) queryset)"
  by (induction queryset arbitrary: st) (simp_all add: notify_post_user_messages)

lemma notify_posts_log:
  "log (notify_posts send st queryset) = log st @ concat (map (post_log send) queryset)"
  by (induction queryset arbitrary: st) (simp_all add: notify_post_log)

lemma notify_post_skipped:
  assumes "post_type p \<noteq> NEWS \<or> post_categories p = []"
  shows "notify_post send st p
           = st\<lparr>user_messages := user_messages st @
                  [(WARNING, if post_type p \<noteq> NEWS then NotNews (title p)
                             else NoCategories (title p))]\<rparr>"
  using assms unfolding notify_post_def by auto

text \<open>
  C7. A post that is not a news item, and a news item without categories, are skipped: the
  action adds one message of level WARNING for the post and nothing else. No email is
  sent, nothing is logged, neither counter moves (in particular not the error counter),
  and the loop goes on with the state otherwise as it was. An action run on such a post
  alone ends with that warning as its only message.
\<close>

theorem skipped_post_warns_and_sends_nothing:
  assumes "post_type p \<noteq> NEWS \<or> post_categories p = []"
  shows "notify_post send st p
           = st\<lparr>user_messages := user_messages st @
                  [(WARNING, if post_type p \<noteq> NEWS then NotNews (title p)
                             else NoCategories (title p))]\<rparr>
       \<and> outbox (notify_post send st p) = outbox st
       \<and> error_count (notify_post send st p) = error_count st
       \<and> success_count (notify_post send st p) = success_count st
       \<and> log (notify_post send st p) = log st
       \<and> send_notifications_action send [p]
           = \<lparr>success_count = 0, error_count = 0,
              user_messages = [(WARNING, if post_type p \<noteq> NEWS then NotNews (title p)
                                         else NoCategories (title p))],
              log = [], outbox = []\<rparr>"
proof -
  have step: "notify_post send s p
           = s\<lparr>user_messages := user_messages s @
                  [(WARNING, if post_type p \<noteq> NEWS then NotNews (title p)
                             else NoCategories (title p))]\<rparr>" for s
    using assms by (rule notify_post_skipped)
  show ?thesis
    unfolding send_notifications_action_def
    by (simp add: step Let_def)
qed

theorem skipped_post_warns_and_sends_nothing_witness:
  "send_notifications_action (\<lambda>p. ([\<lparr>email_to = 7, email_post = post_pk p, email_subject = title p\<rparr>], None))
     [\<lparr>post_pk = 1, title = ''essay'', post_type = ARTICLE,
        post_author = \<lparr>author_pk = 1, author_user = 7\<rparr>, post_created_at = 0,
        post_categories = [1]\<rparr>]
   = \<lparr>success_count = 0, error_count = 0,
      user_messages = [(WARNING, NotNews ''essay'')], log = [], outbox = []\<rparr>
   \<and> send_notifications_action (\<lambda>p. ([\<lparr>email_to = 7, email_post = post_pk p, email_subject = title p\<rparr>], None))
     [\<lparr>post_pk = 2, title = ''flash'', post_type = NEWS,
        post_author = \<lparr>author_pk = 1, author_user = 7\<rparr>, post_created_at = 0,
        post_categories = []\<rparr>]
   = \<lparr>success_count = 0, error_count = 0,
      user_messages = [(WARNING, NoCategories ''flash'')], log = [], outbox = []\<rparr>"
proof -
  have a: "post_type \<lparr>post_pk = 1, title = ''essay'', post_type = ARTICLE,
        post_author = \<lparr>author_pk = 1, author_user = 7\<rparr>, post_created_at = 0,
        post_categories = [1]\<rparr> \<noteq> NEWS
      \<or> post_categories \<lparr>post_pk = 1, title = ''essay'', post_type = ARTICLE,
        post_author = \<lparr>author_pk = 1, author_user = 7\<rparr>, post_created_at = 0,
        post_categories = [1]\<rparr> = []"
    by simp
  have b: "post_type \<lparr>post_pk = 2, title = ''flash'', post_type = NEWS,
        post_author = \<lparr>author_pk = 1, author_user = 7\<rparr>, post_created_at = 0,
        post_categories = []\<rparr> \<noteq> NEWS
      \<or> post_categories \<lparr>post_pk = 2, title = ''flash'', post_type = NEWS,
        post_author = \<lparr>author_pk = 1, author_user = 7\<rparr>, post_created_at = 0,
        post_categories = []\<rparr> = []"
    by simp
  show ?thesis
    using skipped_post_warns_and_sends_nothing [OF a] skipped_post_warns_and_sends_nothing [OF b]
    by simp
qed

text \<open>
  What the action leaves, post by post: the emails, log entries and messages of the posts
  in the order of the queryset, the two counters, and after the loop one message with
  the number of successful dispatches if it is positive.
\<close>

lemma send_notifications_action_result:
  "outbox (send_notifications_action send queryset)
     = concat (map (post_emails send) queryset)
   \<and> success_count (send_notifications_action send queryset)
     = length (filter (succeeded send) queryset)
   \<and> error_count (send_notifications_action send queryset)
     = length (filter (failed send) queryset)
   \<and> log (send_notifications_action send queryset)
     = concat (map (post_log send) queryset)
   \<and> user_messages (send_notifications_action send queryset)
     = concat (map (post_messages send) queryset) @
       (if length (filter (succeeded send) queryset) > 0
        then [(INFO, NotificationsSent (length (filter (succeeded send) queryset)))]
        else [])"
  unfolding send_notifications_action_def
  by (simp add: Let_def notify_posts_outbox notify_posts_success_count
        notify_posts_error_count notify_posts_log notify_posts_user_messages)

text \<open>
  C8. A dispatch that raises is caught, logged at level ERROR and counted in
  \<open>error_count\<close>, and the loop goes on with the next post. The aggregate counts do not both
  reach the staff member: \<open>error_count\<close> is incremented and never read, and after the loop
  only \<open>success_count\<close> is reported. A queryset whose only dispatch raises ends with the
  post's own ERROR message and no count; after one failure and one success the only count
  reported is 1 success, while \<open>error_count\<close> is 1.
\<close>

theorem failure_count_not_reported:
  "send_notifications_action
     (\<lambda>p. if post_pk p = 2 then ([], Some ''SMTP'')
           else ([\<lparr>email_to = 7, email_post = post_pk p, email_subject = title p\<rparr>], None))
     [\<lparr>post_pk = 2, title = ''flash'', post_type = NEWS,
        post_author = \<lparr>author_pk = 1, author_user = 7\<rparr>, post_created_at = 0,
        post_categories = [1]\<rparr>]
   = \<lparr>success_count = 0, error_count = 1,
      user_messages = [(ERROR, DispatchError ''flash'' ''SMTP'')],
      log = [(ERROR, NotificationsFailedFor ''flash'' ''SMTP'')], outbox = []\<rparr>
   \<and> send_notifications_action
     (\<lambda>p. if post_pk p = 2 then ([], Some ''SMTP'')
           else ([\<lparr>email_to = 7, email_post = post_pk p, email_subject = title p\<rparr>], None))
     [\<lparr>post_pk = 2, title = ''flash'', post_type = NEWS,
        post_author = \<lparr>author_pk = 1, author_user = 7\<rparr>, post_created_at = 0,
        post_categories = [1]\<rparr>,
      \<lparr>post_pk = 3, title = ''storm'', post_type = NEWS,
        post_author = \<lparr>author_pk = 1, author_user = 7\<rparr>, post_created_at = 0,
        post_categories = [1]\<rparr>]
   = \<lparr>success_count = 1, error_count = 1,
      user_messages = [(ERROR, DispatchError ''flash'' ''SMTP''), (INFO, NotificationsSent 1)],
      log = [(ERROR, NotificationsFailedFor ''flash'' ''SMTP''),
             (INFO, NotificationsSentFor ''storm'')],
      outbox = [\<lparr>email_to = 7, email_post = 3, email_subject = ''storm''\<rparr>]\<rparr>"
  by (simp add: send_notifications_action_def notify_post_def Let_def)

section \<open>Ownership check (views.py, lines 25--56 and 420--437)\<close>

datatype view_message = OwnContentOnly | AuthorsOnly | InsufficientRights | NewsCreated

text \<open>
  \<open>AuthorRequiredMixin.test_func\<close>: the requester is authenticated and belongs to the group
  'authors'. \<open>groups\<close> are the names of the requester's groups.
\<close>

definition AuthorRequiredMixin_test_func :: "user option \<Rightarrow> string list \<Rightarrow> bool" where
  "AuthorRequiredMixin_test_func request_user groups =
     (case request_user of
        None \<Rightarrow> False
      | Some u \<Rightarrow> ''authors'' \<in> set groups)"

text \<open>
  \<open>OwnerRequiredMixin.test_func\<close>, documented as the check that the requester owns the
  object. Two users are equal when their keys are; an anonymous requester (\<open>None\<close>) equals
  no user and is not staff.
\<close>

definition OwnerRequiredMixin_test_func :: "post \<Rightarrow> user option \<Rightarrow> bool" where
  "OwnerRequiredMixin_test_func obj request_user =
     (case request_user of
        None \<Rightarrow> False
      | Some u \<Rightarrow> author_user (post_author obj) = user_pk u \<or> is_staff u)"

text \<open>
  \<open>handle_no_permission\<close> has the same body in the three mixins of views.py: it adds
  \<open>self.permission_denied_message\<close> at level ERROR and redirects to the list of news. In
  the views below \<open>PermissionRequiredMixinWithMessage\<close> is the first base, so the message
  is its own ("not enough rights"), not the one \<open>OwnerRequiredMixin\<close> declares.
\<close>

definition handle_no_permission ::
  "post list \<Rightarrow> response \<times> (level \<times> view_message) list \<times> post list" where
  "handle_no_permission posts = (Redirect ''news_list'' [], [(ERROR, InsufficientRights)], posts)"

text \<open>
  A deletion request to \<open>NewsDelete\<close>, whose bases are, in order,
  \<open>PermissionRequiredMixinWithMessage\<close>, \<open>AuthRequiredMixin\<close>, \<open>AuthorRequiredMixin\<close>,
  \<open>OwnerRequiredMixin\<close> and \<open>DeleteView\<close>. Python resolves a method to the first base that
  declares it. \<open>PermissionRequiredMixin.dispatch\<close> asks for the permission
  \<open>news.delete_post\<close> (here \<open>has_perm\<close>). \<open>UserPassesTestMixin.dispatch\<close>, which
  \<open>AuthorRequiredMixin\<close> and \<open>OwnerRequiredMixin\<close> both inherit, runs once and calls
  \<open>self.test_func\<close>, which is \<open>AuthorRequiredMixin.test_func\<close>: the test of
  \<open>OwnerRequiredMixin\<close> is never called. Then \<open>DeleteView\<close> looks the key up in
  \<open>get_queryset()\<close>, the news items, raises Http404 when it is missing, deletes the object
  and redirects to \<open>success_url\<close>, the list of news. \<open>AuthRequiredMixin\<close> is declared in
  news/mixins.py, which is not among the sources; its check is taken as passed. The
  success message of \<open>NewsDelete.delete\<close> is left out. \<open>NewsUpdate\<close>, \<open>ArticleUpdate\<close> and
  \<open>ArticleDelete\<close> list the same bases in the same order.
\<close>

definition NewsDelete_dispatch ::
  "post list \<Rightarrow> user option \<Rightarrow> bool \<Rightarrow> string list \<Rightarrow> nat \<Rightarrow>
     error + response \<times> (level \<times> view_message) list \<times> post list" where
  "NewsDelete_dispatch posts request_user has_perm groups pk =
     (if \<not> has_perm then Inr (handle_no_permission posts)
      else if \<not> AuthorRequiredMixin_test_func request_user groups
      then Inr (handle_no_permission posts)
      else
        (case find (\<lambda>p. post_pk p = pk) (filter (\<lambda>p. post_type p = NEWS) posts) of
           None \<Rightarrow> Inl Http404
         | Some obj \<Rightarrow>
             Inr (Redirect ''news_list'' [], [],
                  filter (\<lambda>p. post_pk p \<noteq> post_pk obj) posts)))"

section \<open>Ownership check: properties\<close>

text \<open>
  The outcome of a deletion request does not depend on who owns the post: an author with
  the permission deletes any news item, and a member of staff outside the group 'authors'
  is turned away.
\<close>

lemma NewsDelete_ignores_owner:
  assumes "find (\<lambda>p. post_pk p = pk) (filter (\<lambda>p. post_type p = NEWS) posts) = Some obj"
  shows "NewsDelete_dispatch posts (Some u) True [''authors''] pk
           = Inr (Redirect ''news_list'' [], [], filter (\<lambda>p. post_pk p \<noteq> post_pk obj) posts)"
  using assms unfolding NewsDelete_dispatch_def AuthorRequiredMixin_test_func_def by simp

lemma NewsDelete_denies_staff_outside_authors:
  "NewsDelete_dispatch posts (Some u) True [] pk
     = Inr (Redirect ''news_list'' [], [(ERROR, InsufficientRights)], posts)"
  unfolding NewsDelete_dispatch_def AuthorRequiredMixin_test_func_def handle_no_permission_def
  by simp

text \<open>
  C10. A requester who does not own the post is to be denied, with an explanatory message
  and before any mutation. \<open>OwnerRequiredMixin.test_func\<close> says so for a requester who is
  not staff, but \<open>NewsDelete\<close> never calls it: Bob, an author who is not staff and holds the
  permission, deletes the news item of Ann's author profile and is redirected to the list
  of news with no error message.
\<close>

theorem non_owner_author_deletes_post:
  "NewsDelete_dispatch
     [\<lparr>post_pk = 5, title = ''flash'', post_type = NEWS,
        post_author = \<lparr>author_pk = 1, author_user = 7\<rparr>, post_created_at = 0,
        post_categories = [1]\<rparr>]
     (Some \<lparr>user_pk = 8, username = ''bob'', is_active = True, is_staff = False\<rparr>)
     True [''authors''] 5
   = Inr (Redirect ''news_list'' [], [], [])
   \<and> \<not> OwnerRequiredMixin_test_func
       \<lparr>post_pk = 5, title = ''flash'', post_type = NEWS,
          post_author = \<lparr>author_pk = 1, author_user = 7\<rparr>, post_created_at = 0,
          post_categories = [1]\<rparr>
       (Some \<lparr>user_pk = 8, username = ''bob'', is_active = True, is_staff = False\<rparr>)"
  by (simp add: NewsDelete_dispatch_def AuthorRequiredMixin_test_func_def
        OwnerRequiredMixin_test_func_def)

section \<open>Daily news quota (views.py, lines 236--265 and 383--396)\<close>

text \<open>
  The start of today as \<open>author_dashboard\<close> computes it: \<open>timezone.now().date()\<close> is the date
  in UTC (settings.py: \<open>USE_TZ = True\<close>), and \<open>make_aware\<close> reads midnight of that date as a
  local time of \<open>TIME_ZONE = 'Europe/Moscow'\<close>. \<open>utcoffset\<close> is the zone's offset from UTC,
  in seconds, at a local time given in seconds: for Moscow 10800 (three hours) today and
  in 1970, 14400 in the years 2011 to 2014.
\<close>

definition today_start :: "(int \<Rightarrow> int) \<Rightarrow> int \<Rightarrow> int" where
  "today_start utcoffset now =
     (let today = (now div 86400) * 86400 in today - utcoffset today)"

record dashboard_context =
  context_author :: author
  posts_today :: int
  total_posts :: int
  news_limit_remaining :: int

text \<open>
  The view \<open>author_dashboard\<close>; \<open>groups\<close> are the names of the requester's groups. The
  context entry \<open>recent_posts\<close> is left out.
\<close>

definition author_dashboard ::
  "(int \<Rightarrow> int) \<Rightarrow> author list \<Rightarrow> post list \<Rightarrow> user option \<Rightarrow> string list \<Rightarrow> int \<Rightarrow>
     error + response \<times> (level \<times> view_message) list \<times> dashboard_context option" where
  "author_dashboard utcoffset authors posts request_user groups now =
     (case request_user of
        None \<Rightarrow> Inr (RedirectLogin, [], None)
      | Some u \<Rightarrow>
          if ''authors'' \<notin> set groups
          then Inr (Redirect ''news_list'' [], [(ERROR, AuthorsOnly)], None)
          else
            (case find (\<lambda>a. author_user a = user_pk u) authors of
               None \<Rightarrow> Inl Http404
             | Some author \<Rightarrow>
                 (let posts_today =
                        int (length (filter (\<lambda>p. author_pk (post_author p) = author_pk author
                                                \<and> post_created_at p \<ge> today_start utcoffset now) posts));
                      total_posts =
                        int (length (filter (\<lambda>p. author_pk (post_author p) = author_pk author)
                                       posts))
                  in Inr (Render ''news/author_dashboard.html'', [],
                          Some \<lparr>context_author = author, posts_today = posts_today,
                                total_posts = total_posts,
                                news_limit_remaining = max 0 (3 - posts_today)\<rparr>))))"

text \<open>
  Modelled from the spec: \<open>Author.get_news_count_today\<close> is declared in news/models.py,
  which is not among the sources. Section 4.2 of the specification: the count of NEWS posts
  owned by the author with creation timestamp at or after today's midnight (here the
  parameter \<open>midnight\<close>).
\<close>

definition get_news_count_today :: "post list \<Rightarrow> author \<Rightarrow> int \<Rightarrow> int" where
  "get_news_count_today posts a midnight =
     int (length (filter (\<lambda>p. post_type p = NEWS
                             \<and> author_pk (post_author p) = author_pk a
                             \<and> post_created_at p \<ge> midnight) posts))"

text \<open>
  The two entries \<open>NewsCreate.get_context_data\<close> adds for a requester with an author
  profile: \<open>news_count_today\<close> and \<open>news_remaining\<close>.
\<close>

definition get_context_data :: "post list \<Rightarrow> author option \<Rightarrow> int \<Rightarrow> (int \<times> int) option" where
  "get_context_data posts request_user_author midnight =
     (case request_user_author of
        None \<Rightarrow> None
      | Some a \<Rightarrow>
          (let news_count = get_news_count_today posts a midnight
           in Some (news_count, max 0 (3 - news_count))))"

section \<open>Daily news quota: properties\<close>

lemma news_remaining_is_quota:
  "get_context_data posts (Some a) midnight
     = Some (get_news_count_today posts a midnight,
             max 0 (3 - get_news_count_today posts a midnight))"
  by (simp add: get_context_data_def Let_def)

text \<open>
  C1. The news-creation page shows \<open>max(0, 3 - get_news_count_today())\<close>. The dashboard
  computes its \<open>news_limit_remaining\<close> from \<open>posts_today\<close>, which counts every post of the
  author since the start of today, whatever its type: an author whose only post of the day
  is an article is shown 2 remaining news, where the quota counted over news alone is 3.
\<close>

theorem dashboard_counts_articles:
  "author_dashboard (\<lambda>t. 10800) [\<lparr>author_pk = 1, author_user = 7\<rparr>]
     [\<lparr>post_pk = 5, title = ''essay'', post_type = ARTICLE,
        post_author = \<lparr>author_pk = 1, author_user = 7\<rparr>, post_created_at = 90000,
        post_categories = [1]\<rparr>]
     (Some \<lparr>user_pk = 7, username = ''ann'', is_active = True, is_staff = False\<rparr>)
     [''authors''] 100000
   = Inr (Render ''news/author_dashboard.html'', [],
          Some \<lparr>context_author = \<lparr>author_pk = 1, author_user = 7\<rparr>, posts_today = 1,
                total_posts = 1, news_limit_remaining = 2\<rparr>)
   \<and> get_context_data
       [\<lparr>post_pk = 5, title = ''essay'', post_type = ARTICLE,
          post_author = \<lparr>author_pk = 1, author_user = 7\<rparr>, post_created_at = 90000,
          post_categories = [1]\<rparr>]
       (Some \<lparr>author_pk = 1, author_user = 7\<rparr>) (today_start (\<lambda>t. 10800) 100000)
     = Some (0, 3)"
  by (simp add: author_dashboard_def get_context_data_def get_news_count_today_def
        today_start_def Let_def)

section \<open>News creation (views.py, lines 349--396)\<close>

record portal =
  portal_posts :: "post list"
  next_post_pk :: nat
  portal_authors :: "author list"
  next_author_pk :: nat
  portal_subscriptions :: "subscription list"
  sent :: "email list"

text \<open>The cleaned data of \<open>PostForm\<close>: the title and the chosen categories.\<close>

record form =
  form_title :: string
  form_categories :: "nat list"

datatype dispatch_note = SkippedNotNews | SkippedNoCategories | SendFailed nat

text \<open>
  Modelled from the spec: \<open>Post.send_notifications_to_subscribers\<close> is declared in
  news/models.py, which is not among the sources. Section 4.3 of the specification:
  resolve the categories attached to the post; resolve the users subscribed to any of
  those categories (union, deduplicated by user); construct one email per distinct
  recipient. If the post's type is not NEWS, skip with a warning; if the post has zero
  categories, skip with a warning. Each recipient send is attempted independently; a
  failure is logged and does not abort the sends to the remaining recipients.

  \<open>transport\<close> is the email transport: whether a send succeeds. The result is the emails
  handed to the transport, in order, and the notes logged.
\<close>

definition subscribers_of :: "subscription list \<Rightarrow> nat list \<Rightarrow> nat list" where
  "subscribers_of subs cats =
     remdups (map subscription_user (filter (\<lambda>s. subscription_category s \<in> set cats) subs))"

definition send_notifications_to_subscribers ::
  "(email \<Rightarrow> bool) \<Rightarrow> subscription list \<Rightarrow> post \<Rightarrow> email list \<times> (level \<times> dispatch_note) list" where
  "send_notifications_to_subscribers transport subs p =
     (if post_type p \<noteq> NEWS then ([], [(WARNING, SkippedNotNews)])
      else if post_categories p = [] then ([], [(WARNING, SkippedNoCategories)])
      else
        (let emails = map (\<lambda>u. \<lparr>email_to = u, email_post = post_pk p, email_subject = title p\<rparr>)
                          (subscribers_of subs (post_categories p))
         in (emails, map (\<lambda>e. (ERROR, SendFailed (email_to e)))
                         (filter (\<lambda>e. \<not> transport e) emails))))"

text \<open>
  \<open>Author.objects.get_or_create(user=self.request.user)\<close>: the author profile of the user,
  created when there is none.
\<close>

definition Author_get_or_create :: "portal \<Rightarrow> user \<Rightarrow> author \<times> portal" where
  "Author_get_or_create st u =
     (case find (\<lambda>a. author_user a = user_pk u) (portal_authors st) of
        Some a \<Rightarrow> (a, st)
      | None \<Rightarrow>
          (let a = \<lparr>author_pk = next_author_pk st, author_user = user_pk u\<rparr>
           in (a, st\<lparr>portal_authors := portal_authors st @ [a],
                     next_author_pk := Suc (next_author_pk st)\<rparr>)))"

text \<open>
  \<open>NewsCreate.form_valid\<close>: the post is built from the form, its type is set to NEWS and
  its author to the requester's profile; \<open>super().form_valid(form)\<close> saves it with its
  categories; then the notifications are sent, and the response redirects to the page of
  the new post (\<open>get_success_url\<close>, which also adds the success message).
\<close>

definition form_valid ::
  "(email \<Rightarrow> bool) \<Rightarrow> portal \<Rightarrow> user \<Rightarrow> form \<Rightarrow> int \<Rightarrow>
     response \<times> (level \<times> view_message) list \<times> portal" where
  "form_valid transport st u f now =
     (case Author_get_or_create st u of
        (author, st1) \<Rightarrow>
          (let post = \<lparr>post_pk = next_post_pk st1, title = form_title f, post_type = NEWS,
                       post_author = author, post_created_at = now,
                       post_categories = form_categories f\<rparr>;
               st2 = st1\<lparr>portal_posts := portal_posts st1 @ [post],
                         next_post_pk := Suc (next_post_pk st1)\<rparr>;
               emails = fst (send_notifications_to_subscribers transport
                               (portal_subscriptions st2) post)
           in (Redirect ''news_detail'' [post_pk post], [(SUCCESS, NewsCreated)],
               st2\<lparr>sent := sent st2 @ emails\<rparr>)))"

text \<open>
  Modelled from the spec: \<open>NewsLimitMixin\<close>, a base class of \<open>NewsCreate\<close>, is declared in
  news/mixins.py, which is not among the sources. Section 4.2 of the specification:
  \<open>remaining(author) = max(0, 3 - count_news_today(author))\<close>; the news-creation pathway
  must consult \<open>remaining\<close> before persisting; if remaining is 0, the creation attempt must
  be rejected with a QuotaExceeded condition rather than silently persisted. A requester
  without an author profile has published nothing.
\<close>

definition remaining :: "post list \<Rightarrow> author \<Rightarrow> int \<Rightarrow> int" where
  "remaining posts a midnight = max 0 (3 - get_news_count_today posts a midnight)"

definition NewsLimitMixin_allows :: "portal \<Rightarrow> user \<Rightarrow> int \<Rightarrow> bool" where
  "NewsLimitMixin_allows st u midnight =
     (case find (\<lambda>a. author_user a = user_pk u) (portal_authors st) of
        None \<Rightarrow> True
      | Some a \<Rightarrow> remaining (portal_posts st) a midnight \<noteq> 0)"

datatype outcome = Response response | QuotaExceeded

text \<open>
  A valid form posted to \<open>NewsCreate\<close>. The bases of the class run in order:
  \<open>PermissionRequiredMixinWithMessage\<close> asks for the permission \<open>news.add_post\<close> (here
  \<open>has_perm\<close>) and otherwise adds its message and redirects to the list of news; then
  \<open>NewsLimitMixin\<close>; then the view itself, which ends in \<open>form_valid\<close>. The checks of
  \<open>AuthRequiredMixin\<close> (news/mixins.py) and \<open>AuthorRequiredMixin\<close>, which stand between the
  first two, are taken as passed.
\<close>

definition NewsCreate_post ::
  "(email \<Rightarrow> bool) \<Rightarrow> portal \<Rightarrow> user \<Rightarrow> bool \<Rightarrow> form \<Rightarrow> int \<Rightarrow> int \<Rightarrow>
     outcome \<times> (level \<times> view_message) list \<times> portal" where
  "NewsCreate_post transport st u has_perm f now midnight =
     (if \<not> has_perm
      then (Response (Redirect ''news_list'' []), [(ERROR, InsufficientRights)], st)
      else if \<not> NewsLimitMixin_allows st u midnight then (QuotaExceeded, [], st)
      else (case form_valid transport st u f now of
              (r, msgs, st') \<Rightarrow> (Response r, msgs, st')))"

section \<open>News creation: properties\<close>

lemma remaining_zero_iff:
  "remaining posts a midnight = 0 \<longleftrightarrow> 3 \<le> get_news_count_today posts a midnight"
  unfolding remaining_def by auto

lemma distinct_count_list_one:
  "distinct xs \<Longrightarrow> count_list xs x = (if x \<in> set xs then 1 else 0)"
  by (induction xs) auto

lemma set_subscribers_of:
  "set (subscribers_of subs cats)
     = subscription_user ` {s \<in> set subs. subscription_category s \<in> set cats}"
  unfolding subscribers_of_def by auto

lemma distinct_subscribers_of: "distinct (subscribers_of subs cats)"
  unfolding subscribers_of_def by simp

lemma recipients_of_dispatch:
  assumes "post_type p = NEWS" and "post_categories p \<noteq> []"
  shows "map email_to (fst (send_notifications_to_subscribers transport subs p))
           = subscribers_of subs (post_categories p)"
  using assms unfolding send_notifications_to_subscribers_def
  by (simp add: Let_def comp_def)

lemma sent_after_form_valid:
  "sent (snd (snd (form_valid transport st u f now)))
     = sent st @ fst (send_notifications_to_subscribers transport (portal_subscriptions st)
         \<lparr>post_pk = next_post_pk st, title = form_title f, post_type = NEWS,
          post_author = fst (Author_get_or_create st u), post_created_at = now,
          post_categories = form_categories f\<rparr>)"
  unfolding form_valid_def Author_get_or_create_def
  by (simp add: Let_def split: option.splits)

lemma posts_after_form_valid:
  "portal_posts (snd (snd (form_valid transport st u f now)))
     = portal_posts st @
         [\<lparr>post_pk = next_post_pk st, title = form_title f, post_type = NEWS,
           post_author = fst (Author_get_or_create st u), post_created_at = now,
           post_categories = form_categories f\<rparr>]"
  unfolding form_valid_def Author_get_or_create_def
  by (simp add: Let_def split: option.splits)

text \<open>
  C3. When the requester's author profile has no news left for today (\<open>remaining\<close> is 0,
  that is, three or more news items since midnight), a further creation attempt ends in
  QuotaExceeded: the posts, and the whole state, are as they were, and no email is sent.
\<close>

theorem quota_exceeded_rejects_creation:
  assumes "find (\<lambda>a. author_user a = user_pk u) (portal_authors st) = Some a"
      and "remaining (portal_posts st) a midnight = 0"
  shows "NewsCreate_post transport st u True f now midnight = (QuotaExceeded, [], st)
       \<and> 3 \<le> get_news_count_today (portal_posts st) a midnight"
  using assms remaining_zero_iff [of "portal_posts st" a midnight]
  unfolding NewsCreate_post_def NewsLimitMixin_allows_def by simp

theorem quota_exceeded_rejects_creation_witness:
  "NewsCreate_post (\<lambda>e. True)
     \<lparr>portal_posts =
        [\<lparr>post_pk = 1, title = ''one'', post_type = NEWS,
           post_author = \<lparr>author_pk = 1, author_user = 7\<rparr>, post_created_at = 80000,
           post_categories = [1]\<rparr>,
         \<lparr>post_pk = 2, title = ''two'', post_type = NEWS,
           post_author = \<lparr>author_pk = 1, author_user = 7\<rparr>, post_created_at = 85000,
           post_categories = [1]\<rparr>,
         \<lparr>post_pk = 3, title = ''three'', post_type = NEWS,
           post_author = \<lparr>author_pk = 1, author_user = 7\<rparr>, post_created_at = 90000,
           post_categories = [1]\<rparr>],
      next_post_pk = 4, portal_authors = [\<lparr>author_pk = 1, author_user = 7\<rparr>],
      next_author_pk = 2, portal_subscriptions = [], sent = []\<rparr>
     \<lparr>user_pk = 7, username = ''ann'', is_active = True, is_staff = False\<rparr> True
     \<lparr>form_title = ''four'', form_categories = [1]\<rparr> 95000 75600
   = (QuotaExceeded, [],
     \<lparr>portal_posts =
        [\<lparr>post_pk = 1, title = ''one'', post_type = NEWS,
           post_author = \<lparr>author_pk = 1, author_user = 7\<rparr>, post_created_at = 80000,
           post_categories = [1]\<rparr>,
         \<lparr>post_pk = 2, title = ''two'', post_type = NEWS,
           post_author = \<lparr>author_pk = 1, author_user = 7\<rparr>, post_created_at = 85000,
           post_categories = [1]\<rparr>,
         \<lparr>post_pk = 3, title = ''three'', post_type = NEWS,
           post_author = \<lparr>author_pk = 1, author_user = 7\<rparr>, post_created_at = 90000,
           post_categories = [1]\<rparr>],
      next_post_pk = 4, portal_authors = [\<lparr>author_pk = 1, author_user = 7\<rparr>],
      next_author_pk = 2, portal_subscriptions = [], sent = []\<rparr>)"
proof -
  define st where "st =
     \<lparr>portal_posts =
        [\<lparr>post_pk = 1, title = ''one'', post_type = NEWS,
           post_author = \<lparr>author_pk = 1, author_user = 7\<rparr>, post_created_at = 80000,
           post_categories = [1]\<rparr>,
         \<lparr>post_pk = 2, title = ''two'', post_type = NEWS,
           post_author = \<lparr>author_pk = 1, author_user = 7\<rparr>, post_created_at = 85000,
           post_categories = [1]\<rparr>,
         \<lparr>post_pk = 3, title = ''three'', post_type = NEWS,
           post_author = \<lparr>author_pk = 1, author_user = 7\<rparr>, post_created_at = 90000,
           post_categories = [1]\<rparr>],
      next_post_pk = 4, portal_authors = [\<lparr>author_pk = 1, author_user = 7\<rparr>],
      next_author_pk = 2, portal_subscriptions = [], sent = []\<rparr>"
  define u where "u = \<lparr>user_pk = 7, username = ''ann'', is_active = True, is_staff = False\<rparr>"
  have a: "find (\<lambda>a. author_user a = user_pk u) (portal_authors st)
             = Some \<lparr>author_pk = 1, author_user = 7\<rparr>"
    by (simp add: st_def u_def)
  have r: "remaining (portal_posts st) \<lparr>author_pk = 1, author_user = 7\<rparr> 75600 = 0"
    by (simp add: st_def remaining_def get_news_count_today_def)
  show ?thesis
    using quota_exceeded_rejects_creation [OF a r, of "\<lambda>e. True"
            "\<lparr>form_title = ''four'', form_categories = [1]\<rparr>" 95000]
    by (simp add: st_def u_def)
qed

text \<open>
  C4. For a news item with at least one category the dispatch hands the transport one
  email per distinct subscriber of the item's categories: the recipients are exactly the
  users subscribed to any of the categories, and each of them occurs once, also a user
  subscribed to two of the categories. These are the emails that \<open>NewsCreate.form_valid\<close>
  sends for the post it has saved.
\<close>

theorem one_email_per_subscriber:
  assumes "post_type p = NEWS" and "post_categories p \<noteq> []"
  shows "distinct (map email_to (fst (send_notifications_to_subscribers transport subs p)))
       \<and> set (map email_to (fst (send_notifications_to_subscribers transport subs p)))
           = subscription_user `
               {s \<in> set subs. subscription_category s \<in> set (post_categories p)}
       \<and> (\<forall>x. count_list
                 (map email_to (fst (send_notifications_to_subscribers transport subs p))) x
               = (if x \<in> subscription_user `
                         {s \<in> set subs. subscription_category s \<in> set (post_categories p)}
                  then 1 else 0))
       \<and> (form_categories f = post_categories p \<longrightarrow>
            map email_to (drop (length (sent st))
                            (sent (snd (snd (form_valid transport st u f now)))))
              = subscribers_of (portal_subscriptions st) (post_categories p))"
proof -
  have r: "map email_to (fst (send_notifications_to_subscribers transport subs p))
             = subscribers_of subs (post_categories p)"
    using assms by (rule recipients_of_dispatch)
  have d: "distinct (subscribers_of subs (post_categories p))"
    by (rule distinct_subscribers_of)
  have s: "set (subscribers_of subs (post_categories p))
             = subscription_user `
                 {s \<in> set subs. subscription_category s \<in> set (post_categories p)}"
    by (rule set_subscribers_of)
  have c: "count_list (subscribers_of subs (post_categories p)) x
             = (if x \<in> subscription_user `
                         {s \<in> set subs. subscription_category s \<in> set (post_categories p)}
                then 1 else 0)" for x
    using distinct_count_list_one [OF d, of x] s by simp
  have v: "map email_to (drop (length (sent st))
                            (sent (snd (snd (form_valid transport st u f now)))))
              = subscribers_of (portal_subscriptions st) (post_categories p)"
    if "form_categories f = post_categories p"
  proof -
    have "map email_to (fst (send_notifications_to_subscribers transport (portal_subscriptions st)
            \<lparr>post_pk = next_post_pk st, title = form_title f, post_type = NEWS,
             post_author = fst (Author_get_or_create st u), post_created_at = now,
             post_categories = form_categories f\<rparr>))
          = subscribers_of (portal_subscriptions st) (form_categories f)"
      using recipients_of_dispatch
        [of "\<lparr>post_pk = next_post_pk st, title = form_title f, post_type = NEWS,
              post_author = fst (Author_get_or_create st u), post_created_at = now,
              post_categories = form_categories f\<rparr>" transport "portal_subscriptions st"]
        that assms(2)
      by simp
    then show ?thesis
      using that by (simp add: sent_after_form_valid)
  qed
  show ?thesis
    using r d s c v by simp
qed

theorem one_email_per_subscriber_witness:
  "fst (send_notifications_to_subscribers (\<lambda>e. True)
     [\<lparr>subscription_pk = 1, subscription_user = 7, subscription_category = 1, subscribed_at = 0\<rparr>,
      \<lparr>subscription_pk = 2, subscription_user = 7, subscription_category = 2, subscribed_at = 0\<rparr>,
      \<lparr>subscription_pk = 3, subscription_user = 8, subscription_category = 2, subscribed_at = 0\<rparr>,
      \<lparr>subscription_pk = 4, subscription_user = 9, subscription_category = 3, subscribed_at = 0\<rparr>]
     \<lparr>post_pk = 5, title = ''flash'', post_type = NEWS,
        post_author = \<lparr>author_pk = 1, author_user = 6\<rparr>, post_created_at = 0,
        post_categories = [1, 2]\<rparr>)
   = [\<lparr>email_to = 7, email_post = 5, email_subject = ''flash''\<rparr>,
      \<lparr>email_to = 8, email_post = 5, email_subject = ''flash''\<rparr>]
   \<and> count_list (map email_to (fst (send_notifications_to_subscribers (\<lambda>e. True)
     [\<lparr>subscription_pk = 1, subscription_user = 7, subscription_category = 1, subscribed_at = 0\<rparr>,
      \<lparr>subscription_pk = 2, subscription_user = 7, subscription_category = 2, subscribed_at = 0\<rparr>,
      \<lparr>subscription_pk = 3, subscription_user = 8, subscription_category = 2, subscribed_at = 0\<rparr>,
      \<lparr>subscription_pk = 4, subscription_user = 9, subscription_category = 3, subscribed_at = 0\<rparr>]
     \<lparr>post_pk = 5, title = ''flash'', post_type = NEWS,
        post_author = \<lparr>author_pk = 1, author_user = 6\<rparr>, post_created_at = 0,
        post_categories = [1, 2]\<rparr>))) 7 = 1"
proof -
  define p where "p = \<lparr>post_pk = 5, title = ''flash'', post_type = NEWS,
        post_author = \<lparr>author_pk = 1, author_user = 6\<rparr>, post_created_at = 0,
        post_categories = [1, 2]\<rparr>"
  have a: "post_type p = NEWS" and b: "post_categories p \<noteq> []"
    by (simp_all add: p_def)
  show ?thesis
    using one_email_per_subscriber [OF a b, of "\<lambda>e. True"
      "[\<lparr>subscription_pk = 1, subscription_user = 7, subscription_category = 1, subscribed_at = 0\<rparr>,
        \<lparr>subscription_pk = 2, subscription_user = 7, subscription_category = 2, subscribed_at = 0\<rparr>,
        \<lparr>subscription_pk = 3, subscription_user = 8, subscription_category = 2, subscribed_at = 0\<rparr>,
        \<lparr>subscription_pk = 4, subscription_user = 9, subscription_category = 3, subscribed_at = 0\<rparr>]"]
    unfolding p_def
    by (simp (no_asm) add: send_notifications_to_subscribers_def subscribers_of_def Let_def)
qed

end
